theory Spec2Isabelle
  imports Complex_Main
begin

section \<open>Exceptions\<close>

text \<open>
  The Python exceptions that the modelled code can raise. The spec's names for them are
  \<open>UnsupportedMethod\<close> (the \<open>ValueError\<close> of \<open>generate_basis\<close>), \<open>SchemaError\<close> (the
  \<open>KeyError\<close> of a missing entry of the dataset file), \<open>IndexOutOfRange\<close> (\<open>IndexError\<close>),
  \<open>FileNotFound\<close> (\<open>FileNotFoundError\<close>) and \<open>BasisNotInitialized\<close> (the error that
  \<open>@\<close> raises when its right operand is \<open>None\<close>). \<open>ExternalError\<close> stands for an exception
  of a library routine that the model takes as a parameter.
\<close>

datatype error =
    KeyError string
  | ValueError string
  | IndexError string
  | TypeError string
  | AttributeError string
  | FileNotFoundError string
  | ExternalError string

section \<open>Arrays\<close>

text \<open>
  A numpy array of at most two dimensions: its dtype, its shape and its elements. The
  elements are exact complex numbers: the rounding of floating-point arithmetic is not
  modelled, only the dtype tag and the shape are. A two-dimensional array carries its row
  and column counts, since a list of rows cannot tell a \<open>0 \<times> k\<close> array from a \<open>0 \<times> 0\<close> one.
\<close>

datatype dtype = Float32 | Float64 | Complex64 | Complex128

datatype ndarray =
    A0 dtype complex
  | A1 dtype "complex list"
  | A2 dtype nat nat "complex list list"

fun dtype_of :: "ndarray \<Rightarrow> dtype" where
  "dtype_of (A0 d z) = d"
| "dtype_of (A1 d xs) = d"
| "dtype_of (A2 d r c rows) = d"

fun shape :: "ndarray \<Rightarrow> nat list" where
  "shape (A0 d z) = []"
| "shape (A1 d xs) = [length xs]"
| "shape (A2 d r c rows) = [r, c]"

text \<open>The arrays numpy can build: the rows of a matrix are as many and as long as its shape says.\<close>

fun valid_array :: "ndarray \<Rightarrow> bool" where
  "valid_array (A0 d z) = True"
| "valid_array (A1 d xs) = True"
| "valid_array (A2 d r c rows) = (length rows = r \<and> list_all (\<lambda>row. length row = c) rows)"

fun is_matrix :: "ndarray \<Rightarrow> bool" where
  "is_matrix (A2 d r c rows) = True"
| "is_matrix a = False"

text \<open>\<open>len(a)\<close>: the first dimension; a 0-d array has none.\<close>

fun len_array :: "ndarray \<Rightarrow> error + nat" where
  "len_array (A0 d z) = Inl (TypeError ''len() of unsized object'')"
| "len_array (A1 d xs) = Inr (length xs)"
| "len_array (A2 d r c rows) = Inr r"

text \<open>\<open>a.T\<close> reverses the axes, so it changes a two-dimensional array only.\<close>

fun array_T :: "ndarray \<Rightarrow> ndarray" where
  "array_T (A2 d r c rows) = A2 d c r (map (\<lambda>j. map (\<lambda>row. row ! j) rows) [0..<c])"
| "array_T a = a"

fun array_conj :: "ndarray \<Rightarrow> ndarray" where
  "array_conj (A0 d z) = A0 d (cnj z)"
| "array_conj (A1 d xs) = A1 d (map cnj xs)"
| "array_conj (A2 d r c rows) = A2 d r c (map (map cnj) rows)"

text \<open>\<open>a.T.conj()\<close>\<close>

definition T_conj :: "ndarray \<Rightarrow> ndarray" where
  "T_conj a = array_conj (array_T a)"

text \<open>\<open>a.astype(np.complex64)\<close>, for a rounding \<open>rnd\<close> of the elements to single precision.\<close>

fun astype_complex64 :: "(complex \<Rightarrow> complex) \<Rightarrow> ndarray \<Rightarrow> ndarray" where
  "astype_complex64 rnd (A0 d z) = A0 Complex64 (rnd z)"
| "astype_complex64 rnd (A1 d xs) = A1 Complex64 (map rnd xs)"
| "astype_complex64 rnd (A2 d r c rows) = A2 Complex64 r c (map (map rnd) rows)"

text \<open>
  The stop of a Python slice \<open>[:n]\<close> over \<open>len\<close> elements: a negative \<open>n\<close> counts from the
  end, and the result is clipped to the range.
\<close>

definition slice_stop :: "int \<Rightarrow> nat \<Rightarrow> nat" where
  "slice_stop n len = (if n < 0 then nat (max 0 (int len + n)) else nat (min n (int len)))"

text \<open>\<open>a[:, :n]\<close> and \<open>a[:n, :]\<close>: two indices need two dimensions.\<close>

fun slice_columns :: "ndarray \<Rightarrow> int \<Rightarrow> error + ndarray" where
  "slice_columns (A2 d r c rows) n =
     Inr (A2 d r (slice_stop n c) (map (take (slice_stop n c)) rows))"
| "slice_columns a n = Inl (IndexError ''too many indices for array'')"

fun slice_rows :: "ndarray \<Rightarrow> int \<Rightarrow> error + ndarray" where
  "slice_rows (A2 d r c rows) n = Inr (A2 d (slice_stop n r) c (take (slice_stop n r) rows))"
| "slice_rows a n = Inl (IndexError ''too many indices for array'')"

text \<open>The dtype of the result of an operation on two arrays (\<open>np.result_type\<close>).\<close>

fun is_complex :: "dtype \<Rightarrow> bool" where
  "is_complex Complex64 = True"
| "is_complex Complex128 = True"
| "is_complex d = False"

fun is_double :: "dtype \<Rightarrow> bool" where
  "is_double Float64 = True"
| "is_double Complex128 = True"
| "is_double d = False"

definition result_type :: "dtype \<Rightarrow> dtype \<Rightarrow> dtype" where
  "result_type d e =
     (if is_complex d \<or> is_complex e
      then (if is_double d \<or> is_double e then Complex128 else Complex64)
      else (if is_double d \<or> is_double e then Float64 else Float32))"

definition dot :: "complex list \<Rightarrow> complex list \<Rightarrow> complex" where
  "dot xs ys = sum_list (map (\<lambda>(x, y). x * y) (zip xs ys))"

definition vec_mat :: "complex list \<Rightarrow> complex list list \<Rightarrow> nat \<Rightarrow> complex list" where
  "vec_mat xs rows c = map (\<lambda>j. dot xs (map (\<lambda>row. row ! j) rows)) [0..<c]"

text \<open>
  \<open>a @ b\<close> on arrays: \<open>np.matmul\<close> takes no 0-d operand, and the last dimension of \<open>a\<close>
  must be the first of \<open>b\<close>.
\<close>

fun matmul_array :: "ndarray \<Rightarrow> ndarray \<Rightarrow> error + ndarray" where
  "matmul_array (A0 d z) b =
     Inl (ValueError ''matmul: Input operand 0 does not have enough dimensions'')"
| "matmul_array a (A0 e w) =
     Inl (ValueError ''matmul: Input operand 1 does not have enough dimensions'')"
| "matmul_array (A1 d xs) (A1 e ys) =
     (if length xs = length ys then Inr (A0 (result_type d e) (dot xs ys))
      else Inl (ValueError ''matmul: Input operand 1 has a mismatch in its core dimension 0''))"
| "matmul_array (A1 d xs) (A2 e r c rows) =
     (if length xs = r then Inr (A1 (result_type d e) (vec_mat xs rows c))
      else Inl (ValueError ''matmul: Input operand 1 has a mismatch in its core dimension 0''))"
| "matmul_array (A2 d r c rows) (A1 e ys) =
     (if c = length ys then Inr (A1 (result_type d e) (map (\<lambda>row. dot row ys) rows))
      else Inl (ValueError ''matmul: Input operand 1 has a mismatch in its core dimension 0''))"
| "matmul_array (A2 d r c rows) (A2 e r' c' rows') =
     (if c = r' then Inr (A2 (result_type d e) r c' (map (\<lambda>row. vec_mat row rows' c') rows))
      else Inl (ValueError ''matmul: Input operand 1 has a mismatch in its core dimension 0''))"

text \<open>
  \<open>a @ b\<close> where \<open>b\<close> is an attribute that may hold \<open>None\<close>: numpy turns \<open>None\<close> into a 0-d
  array of objects, which \<open>np.matmul\<close> refuses.
\<close>

fun matmul :: "ndarray \<Rightarrow> ndarray option \<Rightarrow> error + ndarray" where
  "matmul (A0 d z) None =
     Inl (ValueError ''matmul: Input operand 0 does not have enough dimensions'')"
| "matmul a None =
     Inl (ValueError ''matmul: Input operand 1 does not have enough dimensions'')"
| "matmul a (Some b) = matmul_array a b"

section \<open>External numerical routines\<close>

text \<open>
  \<open>scipy.linalg.svd\<close> and \<open>sklearn.utils.extmath.randomized_svd\<close> are library code: the
  model takes them as parameters. Each gives the third component \<open>Vh\<close> of the
  decomposition, the only one \<open>generate_basis\<close> uses, or the exception it raises.
  \<open>round_complex64\<close> is the rounding of one element by \<open>astype(np.complex64)\<close>.
\<close>

record numlib =
  scipy_svd :: "ndarray \<Rightarrow> error + ndarray"
  randomized_svd :: "ndarray \<Rightarrow> int \<Rightarrow> error + ndarray"
  round_complex64 :: "complex \<Rightarrow> complex"

section \<open>SVDBasis\<close>

text \<open>The attributes \<open>V\<close>, \<open>Vh\<close> and \<open>n\<close>; \<open>None\<close> is Python's \<open>None\<close>.\<close>

record SVDBasis =
  basis_V :: "ndarray option"
  basis_Vh :: "ndarray option"
  basis_n :: "int option"

text \<open>\<open>SVDBasis.__init__\<close>\<close>

definition SVDBasis_init :: SVDBasis where
  "SVDBasis_init = \<lparr>basis_V = None, basis_Vh = None, basis_n = None\<rparr>"

text \<open>\<open>min(training_data.shape)\<close>: \<open>min\<close> of an empty tuple raises.\<close>

definition min_shape :: "ndarray \<Rightarrow> error + int" where
  "min_shape a =
     (case shape a of
        [] \<Rightarrow> Inl (ValueError ''min() arg is an empty sequence'')
      | k # ks \<Rightarrow> Inr (int (fold min ks k)))"

text \<open>
  \<open>SVDBasis.generate_basis\<close>. A method that assigns attributes returns the exception, if
  one was raised, and the object as the method left it.
\<close>

text \<open>\<open>if n == 0: n = min(training_data.shape)\<close>\<close>

definition resolve_n :: "ndarray \<Rightarrow> int \<Rightarrow> error + int" where
  "resolve_n training_data n = (if n = 0 then min_shape training_data else Inr n)"

definition generate_basis_random ::
  "numlib \<Rightarrow> SVDBasis \<Rightarrow> ndarray \<Rightarrow> int \<Rightarrow> error option \<times> SVDBasis" where
  "generate_basis_random lib self training_data n =
     (case resolve_n training_data n of
        Inl e \<Rightarrow> (Some e, self)
      | Inr n' \<Rightarrow>
          (case randomized_svd lib training_data n' of
             Inl e \<Rightarrow> (Some e, self)
           | Inr Vh \<Rightarrow>
               (let Vh' = astype_complex64 (round_complex64 lib) Vh
                in (None, self\<lparr>basis_Vh := Some Vh',
                                basis_V := Some (T_conj Vh'),
                                basis_n := Some n'\<rparr>))))"

text \<open>\<open>self.n = len(self.Vh)\<close>, the last statement of the \<open>'scipy'\<close> branch.\<close>

definition store_len_Vh :: "SVDBasis \<Rightarrow> ndarray \<Rightarrow> error option \<times> SVDBasis" where
  "store_len_Vh self Vh =
     (case len_array Vh of
        Inl e \<Rightarrow> (Some e, self)
      | Inr l \<Rightarrow> (None, self\<lparr>basis_n := Some (int l)\<rparr>))"

text \<open>\<open>(n == 0) or (n > len(V))\<close>: \<open>len(V)\<close> is evaluated only when \<open>n\<close> is not 0.\<close>

definition keep_all :: "int \<Rightarrow> ndarray \<Rightarrow> error + bool" where
  "keep_all n V =
     (if n = 0 then Inr True
      else case len_array V of Inl e \<Rightarrow> Inl e | Inr l \<Rightarrow> Inr (n > int l))"

definition generate_basis_scipy ::
  "numlib \<Rightarrow> SVDBasis \<Rightarrow> ndarray \<Rightarrow> int \<Rightarrow> error option \<times> SVDBasis" where
  "generate_basis_scipy lib self training_data n =
     (case scipy_svd lib training_data of
        Inl e \<Rightarrow> (Some e, self)
      | Inr Vh \<Rightarrow>
          (let V = T_conj Vh in
           case keep_all n V of
             Inl e \<Rightarrow> (Some e, self)
           | Inr True \<Rightarrow> store_len_Vh (self\<lparr>basis_V := Some V, basis_Vh := Some Vh\<rparr>) Vh
           | Inr False \<Rightarrow>
               (case slice_columns V n of
                  Inl e \<Rightarrow> (Some e, self)
                | Inr V' \<Rightarrow>
                    (case slice_rows Vh n of
                       Inl e \<Rightarrow> (Some e, self\<lparr>basis_V := Some V'\<rparr>)
                     | Inr Vh' \<Rightarrow>
                         store_len_Vh (self\<lparr>basis_V := Some V', basis_Vh := Some Vh'\<rparr>) Vh'))))"

definition generate_basis ::
  "numlib \<Rightarrow> SVDBasis \<Rightarrow> ndarray \<Rightarrow> int \<Rightarrow> string \<Rightarrow> error option \<times> SVDBasis" where
  "generate_basis lib self training_data n method =
     (if method = ''random'' then generate_basis_random lib self training_data n
      else if method = ''scipy'' then generate_basis_scipy lib self training_data n
      else (Some (ValueError (''Unsupported SVD method: '' @ method @ ''.'')), self))"

text \<open>\<open>SVDBasis.basis_coefficients_to_fseries\<close>: \<open>coefficients @ self.Vh\<close>\<close>

definition basis_coefficients_to_fseries :: "SVDBasis \<Rightarrow> ndarray \<Rightarrow> error + ndarray" where
  "basis_coefficients_to_fseries self coefficients = matmul coefficients (basis_Vh self)"

text \<open>\<open>SVDBasis.fseries_to_basis_coefficients\<close>: \<open>fseries @ self.V\<close>\<close>

definition fseries_to_basis_coefficients :: "SVDBasis \<Rightarrow> ndarray \<Rightarrow> error + ndarray" where
  "fseries_to_basis_coefficients self fseries = matmul fseries (basis_V self)"

text \<open>
  The \<open>.npy\<close> files of the file system, by name. \<open>np.save\<close> appends \<open>.npy\<close> to a file name
  that does not end with it; \<open>np.load\<close> opens the name it is given.
\<close>

type_synonym npy_files = "string \<rightharpoonup> ndarray"

definition has_npy_suffix :: "string \<Rightarrow> bool" where
  "has_npy_suffix filename = (4 \<le> length filename \<and> drop (length filename - 4) filename = ''.npy'')"

definition npy_name :: "string \<Rightarrow> string" where
  "npy_name filename = (if has_npy_suffix filename then filename else filename @ ''.npy'')"

definition np_save :: "npy_files \<Rightarrow> string \<Rightarrow> ndarray \<Rightarrow> npy_files" where
  "np_save files filename a = files(npy_name filename \<mapsto> a)"

definition np_load :: "npy_files \<Rightarrow> string \<Rightarrow> error + ndarray" where
  "np_load files filename =
     (case files filename of
        None \<Rightarrow> Inl (FileNotFoundError filename)
      | Some a \<Rightarrow> Inr a)"

text \<open>\<open>a.shape[1]\<close>\<close>

definition shape_1 :: "ndarray \<Rightarrow> error + nat" where
  "shape_1 a =
     (case shape a of
        r # c # ks \<Rightarrow> Inr c
      | ks \<Rightarrow> Inl (IndexError ''tuple index out of range''))"

text \<open>\<open>SVDBasis.from_file\<close>\<close>

definition from_file :: "npy_files \<Rightarrow> SVDBasis \<Rightarrow> string \<Rightarrow> error option \<times> SVDBasis" where
  "from_file files self filename =
     (case np_load files filename of
        Inl e \<Rightarrow> (Some e, self)
      | Inr V \<Rightarrow>
          (let self' = self\<lparr>basis_V := Some V, basis_Vh := Some (T_conj V)\<rparr>
           in case shape_1 V of
                Inl e \<Rightarrow> (Some e, self')
              | Inr c \<Rightarrow> (None, self'\<lparr>basis_n := Some (int c)\<rparr>)))"

text \<open>\<open>SVDBasis.to_file\<close>: the file system after the call.\<close>

definition to_file :: "npy_files \<Rightarrow> SVDBasis \<Rightarrow> string \<Rightarrow> npy_files" where
  "to_file files self filename =
     (case basis_V self of
        None \<Rightarrow> files
      | Some V \<Rightarrow> np_save files filename V)"

section \<open>WaveformDataset\<close>

text \<open>
  One row of the parameter table as \<open>to_dict\<close> gives it, and one row of the table of
  polarizations, whose columns are \<open>h_plus\<close> and \<open>h_cross\<close>. A sample is the dictionary
  \<open>{'parameters': ..., 'waveform': ...}\<close> that \<open>__getitem__\<close> builds.
\<close>

type_synonym params = "(string \<times> real) list"

record polarizations =
  h_plus :: ndarray
  h_cross :: ndarray

record sample =
  parameters :: params
  waveform :: polarizations

text \<open>
  The content of an HDF5 dataset file, as far as \<open>load\<close> reads it: the record array
  \<open>parameters\<close>, the datasets of the group \<open>waveform_polarizations\<close> by name, the dataset
  \<open>rb_matrix_V\<close> and the attribute \<open>settings\<close>; \<open>None\<close> where the file has no such entry.
\<close>

record h5file =
  h5_parameters :: "params list option"
  h5_waveform_polarizations :: "(string \<times> ndarray) list option"
  h5_rb_matrix_V :: "ndarray option"
  h5_settings :: "string option"

type_synonym h5_files = "string \<rightharpoonup> h5file"

text \<open>
  \<open>ast.literal_eval\<close> and \<open>dingo.gw.domains.build_domain\<close> are not part of the modelled
  file: the model takes them as parameters. The settings are a dictionary of values of a
  type \<open>'v\<close>, the domain is of a type \<open>'dom\<close>, and the model looks into neither.
\<close>

record ('v, 'dom) settings_lib =
  literal_eval :: "string \<Rightarrow> error + (string \<times> 'v) list"
  build_domain :: "'v \<Rightarrow> error + 'dom"

text \<open>
  The attributes of a \<open>WaveformDataset\<close>. An attribute that has not been assigned yet is
  \<open>None\<close>. \<open>_Vh\<close> is assigned \<open>None\<close> by \<open>__init__\<close> and tested with
  \<open>'_Vh' in self.__dict__\<close> by \<open>__getitem__\<close>, so the model tells the attribute that is
  absent (\<open>None\<close>) from the attribute that holds Python's \<open>None\<close> (\<open>Some None\<close>).
\<close>

record ('v, 'dom) WaveformDataset =
  transform :: "(sample \<Rightarrow> error + sample) option"
  Vh_attr :: "ndarray option option"
  parameter_samples :: "params list option"
  waveform_polarizations :: "polarizations list option"
  data_settings :: "(string \<times> 'v) list option"
  domain :: "'dom option"

text \<open>\<open>[x for x in a]\<close>: the rows of a matrix, the elements of a vector.\<close>

fun iter_array :: "ndarray \<Rightarrow> error + ndarray list" where
  "iter_array (A0 d z) = Inl (TypeError ''iteration over a 0-d array'')"
| "iter_array (A1 d xs) = Inr (map (A0 d) xs)"
| "iter_array (A2 d r c rows) = Inr (map (A1 d) rows)"

text \<open>\<open>[x for x in polarization_dict_2d[k]]\<close>\<close>

definition polarization_column :: "(string \<times> ndarray) list \<Rightarrow> string \<Rightarrow> error + ndarray list" where
  "polarization_column grp k =
     (case map_of grp k of
        None \<Rightarrow> Inl (KeyError k)
      | Some a \<Rightarrow> iter_array a)"

text \<open>
  \<open>pd.DataFrame(polarization_dict)\<close>, for the dictionary with the keys \<open>h_plus\<close> and
  \<open>h_cross\<close>: the two columns must have the same length.
\<close>

definition DataFrame_polarizations ::
  "ndarray list \<Rightarrow> ndarray list \<Rightarrow> error + polarizations list" where
  "DataFrame_polarizations ps cs =
     (if length ps = length cs
      then Inr (map (\<lambda>(p, c). \<lparr>h_plus = p, h_cross = c\<rparr>) (zip ps cs))
      else Inl (ValueError ''All arrays must be of the same length''))"

text \<open>\<open>WaveformDataset.load\<close>, on the opened file.\<close>

definition load_settings ::
  "('v, 'dom) settings_lib \<Rightarrow> ('v, 'dom) WaveformDataset \<Rightarrow> h5file \<Rightarrow>
   error option \<times> ('v, 'dom) WaveformDataset" where
  "load_settings lib self fp =
     (case h5_settings fp of
        None \<Rightarrow> (Some (KeyError ''settings''), self)
      | Some s \<Rightarrow>
          (case literal_eval lib s of
             Inl e \<Rightarrow> (Some e, self)
           | Inr d \<Rightarrow>
               (let self' = self\<lparr>data_settings := Some d\<rparr>
                in case map_of d ''domain_settings'' of
                     None \<Rightarrow> (Some (KeyError ''domain_settings''), self')
                   | Some ds \<Rightarrow>
                       (case build_domain lib ds of
                          Inl e \<Rightarrow> (Some e, self')
                        | Inr dm \<Rightarrow> (None, self'\<lparr>domain := Some dm\<rparr>)))))"

definition load_rb_matrix ::
  "('v, 'dom) WaveformDataset \<Rightarrow> h5file \<Rightarrow> ('v, 'dom) WaveformDataset" where
  "load_rb_matrix self fp =
     (case h5_rb_matrix_V fp of
        None \<Rightarrow> self
      | Some V \<Rightarrow> self\<lparr>Vh_attr := Some (Some (T_conj V))\<rparr>)"

definition load ::
  "('v, 'dom) settings_lib \<Rightarrow> ('v, 'dom) WaveformDataset \<Rightarrow> h5file \<Rightarrow>
   error option \<times> ('v, 'dom) WaveformDataset" where
  "load lib self fp =
     (case h5_parameters fp of
        None \<Rightarrow> (Some (KeyError ''parameters''), self)
      | Some parameter_array \<Rightarrow>
          (let self1 = self\<lparr>parameter_samples := Some parameter_array\<rparr>
           in case h5_waveform_polarizations fp of
                None \<Rightarrow> (Some (KeyError ''waveform_polarizations''), self1)
              | Some grp \<Rightarrow>
                  (case polarization_column grp ''h_plus'' of
                     Inl e \<Rightarrow> (Some e, self1)
                   | Inr ps \<Rightarrow>
                       (case polarization_column grp ''h_cross'' of
                          Inl e \<Rightarrow> (Some e, self1)
                        | Inr cs \<Rightarrow>
                            (case DataFrame_polarizations ps cs of
                               Inl e \<Rightarrow> (Some e, self1)
                             | Inr table \<Rightarrow>
                                 load_settings lib
                                   (load_rb_matrix
                                      (self1\<lparr>waveform_polarizations := Some table\<rparr>) fp)
                                   fp)))))"

text \<open>
  \<open>WaveformDataset.__init__\<close>: \<open>init_attributes\<close> is the object after the two
  assignments, before \<open>load\<close>. The object exists only if \<open>load\<close> raised nothing.
  \<open>h5py.File\<close> raises when there is no file of that name.
\<close>

definition init_attributes :: "(sample \<Rightarrow> error + sample) option \<Rightarrow> ('v, 'dom) WaveformDataset" where
  "init_attributes tr =
     \<lparr>transform = tr, Vh_attr = Some None, parameter_samples = None,
      waveform_polarizations = None, data_settings = None, domain = None\<rparr>"

definition WaveformDataset_init ::
  "('v, 'dom) settings_lib \<Rightarrow> h5_files \<Rightarrow> string \<Rightarrow> (sample \<Rightarrow> error + sample) option \<Rightarrow>
   error + ('v, 'dom) WaveformDataset" where
  "WaveformDataset_init lib files dataset_file tr =
     (case files dataset_file of
        None \<Rightarrow> Inl (FileNotFoundError dataset_file)
      | Some fp \<Rightarrow>
          (case load lib (init_attributes tr) fp of
             (Some e, self') \<Rightarrow> Inl e
           | (None, self') \<Rightarrow> Inr self'))"


text \<open>
  \<open>df.iloc[idx]\<close> for an integer \<open>idx\<close>: a negative index counts from the end, an index
  out of range raises.
\<close>

definition iloc :: "'a list \<Rightarrow> int \<Rightarrow> error + 'a" where
  "iloc rows idx =
     (let l = int (length rows); j = (if idx < 0 then l + idx else idx)
      in if 0 \<le> j \<and> j < l then Inr (rows ! nat j)
         else Inl (IndexError ''single positional indexer is out-of-bounds''))"

text \<open>The first three statements of \<open>__getitem__\<close>: the sample as the tables hold it.\<close>

definition raw_sample :: "('v, 'dom) WaveformDataset \<Rightarrow> int \<Rightarrow> error + sample" where
  "raw_sample self idx =
     (case parameter_samples self of
        None \<Rightarrow> Inl (AttributeError ''_parameter_samples'')
      | Some ps \<Rightarrow>
          (case iloc ps idx of
             Inl e \<Rightarrow> Inl e
           | Inr p \<Rightarrow>
               (case waveform_polarizations self of
                  None \<Rightarrow> Inl (AttributeError ''_waveform_polarizations'')
                | Some ws \<Rightarrow>
                    (case iloc ws idx of
                       Inl e \<Rightarrow> Inl e
                     | Inr w \<Rightarrow> Inr \<lparr>parameters = p, waveform = w\<rparr>))))"

text \<open>
  The statements under \<open>if '_Vh' in self.__dict__\<close>: both polarizations are multiplied by
  the attribute, whatever it holds.
\<close>

definition apply_Vh :: "ndarray option \<Rightarrow> sample \<Rightarrow> error + sample" where
  "apply_Vh Vh data =
     (case matmul (h_plus (waveform data)) Vh of
        Inl e \<Rightarrow> Inl e
      | Inr p \<Rightarrow>
          (case matmul (h_cross (waveform data)) Vh of
             Inl e \<Rightarrow> Inl e
           | Inr c \<Rightarrow> Inr (data\<lparr>waveform := \<lparr>h_plus = p, h_cross = c\<rparr>\<rparr>)))"

text \<open>\<open>WaveformDataset.__getitem__\<close>\<close>

definition getitem :: "('v, 'dom) WaveformDataset \<Rightarrow> int \<Rightarrow> error + sample" where
  "getitem self idx =
     (case raw_sample self idx of
        Inl e \<Rightarrow> Inl e
      | Inr data \<Rightarrow>
          (case (case Vh_attr self of
                   None \<Rightarrow> Inr data
                 | Some Vh \<Rightarrow> apply_Vh Vh data) of
             Inl e \<Rightarrow> Inl e
           | Inr data' \<Rightarrow>
               (case transform self of
                  None \<Rightarrow> Inr data'
                | Some t \<Rightarrow> t data')))"

section \<open>Properties and assumptions\<close>

text \<open>
  The conjugate transpose in the spec's words, element by element and without \<open>T_conj\<close>:
  \<open>Vh\<close> is the conjugate transpose of the \<open>r \<times> c\<close> matrix \<open>V\<close> when it is a \<open>c \<times> r\<close>
  matrix of the same dtype whose element \<open>(j, i)\<close> is the complex conjugate of the element
  \<open>(i, j)\<close> of \<open>V\<close>.
\<close>

definition conjugate_transpose_of :: "ndarray \<Rightarrow> ndarray \<Rightarrow> bool" where
  "conjugate_transpose_of Vh V =
     (case V of
        A2 d r c rows \<Rightarrow>
          (case Vh of
             A2 d' r' c' rows' \<Rightarrow>
               d' = d \<and> r' = c \<and> c' = r \<and> valid_array Vh \<and>
               list_all (\<lambda>j. list_all (\<lambda>i. rows' ! j ! i = cnj (rows ! i ! j)) [0..<r]) [0..<c]
           | _ \<Rightarrow> False)
      | _ \<Rightarrow> False)"

text \<open>
  The invariant of a populated basis: \<open>Vh\<close> is the conjugate transpose of \<open>V\<close>, and \<open>n\<close> is
  the number of columns of \<open>V\<close> (\<open>V.shape[1]\<close>) and the number of rows of \<open>Vh\<close> (\<open>len(Vh)\<close>).
\<close>

definition basis_invariant :: "SVDBasis \<Rightarrow> bool" where
  "basis_invariant b =
     (case basis_V b of
        None \<Rightarrow> False
      | Some V \<Rightarrow>
          (case basis_Vh b of
             None \<Rightarrow> False
           | Some Vh \<Rightarrow>
               (case basis_n b of
                  None \<Rightarrow> False
                | Some k \<Rightarrow>
                    conjugate_transpose_of Vh V \<and> 0 \<le> k \<and> shape_1 V = Inr (nat k) \<and>
                    len_array Vh = Inr (nat k))))"

text \<open>
  What the lemmas on the \<open>'scipy'\<close> branch assume of \<open>scipy.linalg.svd\<close>: when it
  returns, \<open>Vh\<close> is a matrix.
\<close>

definition scipy_svd_output_ok :: "numlib \<Rightarrow> ndarray \<Rightarrow> bool" where
  "scipy_svd_output_ok lib training_data =
     (case scipy_svd lib training_data of
        Inl e \<Rightarrow> True
      | Inr Vh \<Rightarrow> is_matrix Vh \<and> valid_array Vh)"

section \<open>Concrete instances\<close>

text \<open>
  An instance of the external numerical routines, to evaluate the model at concrete
  inputs. It is exact on an identity matrix \<open>I\<close>: \<open>I = I @ diag(1, ..., 1) @ I\<close> is a
  singular value decomposition, so \<open>Vh = I\<close>, its first \<open>n\<close> rows are the \<open>n\<close> leading
  right-singular vectors, the dtype is that of the input, and rounding 0 and 1 to single
  precision changes nothing. \<open>randomized_svd\<close> ends with \<open>Vt[:n_components, :]\<close>: asked
  for more components than the matrix has rows, it returns the rows there are.
\<close>

definition example_numlib :: numlib where
  "example_numlib =
     \<lparr>scipy_svd = (\<lambda>M. Inr M),
      randomized_svd = (\<lambda>M n. slice_rows M n),
      round_complex64 = (\<lambda>z. z)\<rparr>"

text \<open>
  A populated basis of rank 2 over a physical domain of 3 samples: the columns of \<open>V\<close> are
  orthonormal, \<open>Vh\<close> is its conjugate transpose.
\<close>

definition example_basis :: SVDBasis where
  "example_basis =
     \<lparr>basis_V = Some (A2 Complex64 3 2 [[\<i>, 0], [0, 1], [0, 0]]),
      basis_Vh = Some (A2 Complex64 2 3 [[- \<i>, 0, 0], [0, 1, 0]]),
      basis_n = Some 2\<rparr>"

text \<open>
  An instance of the external settings routines: every settings string parses to a
  dictionary with the one key \<open>domain_settings\<close>, and every domain description builds.
\<close>

definition example_settings_lib :: "(unit, unit) settings_lib" where
  "example_settings_lib =
     \<lparr>literal_eval = (\<lambda>s. Inr [(''domain_settings'', ())]),
      build_domain = (\<lambda>ds. Inr ())\<rparr>"

text \<open>
  The dataset of the spec's example: three samples, parameters \<open>m1\<close> and \<open>m2\<close>, the
  waveform vector \<open>[1+0j, 0+1j]\<close> for each polarization, no basis matrix.
\<close>

definition three_sample_file :: h5file where
  "three_sample_file =
     \<lparr>h5_parameters = Some [[(''m1'', 30), (''m2'', 25)], [(''m1'', 35), (''m2'', 20)],
                             [(''m1'', 40), (''m2'', 15)]],
      h5_waveform_polarizations =
        Some [(''h_plus'', A2 Complex128 3 2 [[1, \<i>], [1, \<i>], [1, \<i>]]),
              (''h_cross'', A2 Complex128 3 2 [[1, \<i>], [1, \<i>], [1, \<i>]])],
      h5_rb_matrix_V = None,
      h5_settings = Some ''settings''\<rparr>"

text \<open>
  A dataset of one sample with a basis matrix: \<open>V\<close> is the rotation by a quarter turn,
  which is unitary.
\<close>

definition rotation_basis_file :: h5file where
  "rotation_basis_file =
     \<lparr>h5_parameters = Some [[(''m1'', 30), (''m2'', 25)]],
      h5_waveform_polarizations =
        Some [(''h_plus'', A2 Complex128 1 2 [[1, 0]]),
              (''h_cross'', A2 Complex128 1 2 [[0, 1]])],
      h5_rb_matrix_V = Some (A2 Complex128 2 2 [[0, 1], [- 1, 0]]),
      h5_settings = Some ''settings''\<rparr>"

text \<open>A dataset file with two rows of parameters and one row of waveforms.\<close>

definition mismatched_file :: h5file where
  "mismatched_file =
     \<lparr>h5_parameters = Some [[(''m1'', 30), (''m2'', 25)], [(''m1'', 35), (''m2'', 20)]],
      h5_waveform_polarizations =
        Some [(''h_plus'', A2 Complex128 1 2 [[1, \<i>]]),
              (''h_cross'', A2 Complex128 1 2 [[1, \<i>]])],
      h5_rb_matrix_V = None,
      h5_settings = Some ''settings''\<rparr>"

text \<open>The dataset files and the \<open>.npy\<close> files of the examples, by name.\<close>

definition example_h5_files :: h5_files where
  "example_h5_files =
     [''three_samples.h5'' \<mapsto> three_sample_file,
      ''rotation_basis.h5'' \<mapsto> rotation_basis_file,
      ''mismatched.h5'' \<mapsto> mismatched_file]"

definition example_npy_files :: npy_files where
  "example_npy_files = [''V.npy'' \<mapsto> A2 Complex128 2 2 [[0, 1], [- 1, 0]]]"

text \<open>
  The comparison for the projection step of \<open>__getitem__\<close>: a method of the basis applied
  to both polarizations of a sample.
\<close>

definition map_polarizations :: "(ndarray \<Rightarrow> error + ndarray) \<Rightarrow> sample \<Rightarrow> error + sample" where
  "map_polarizations f data =
     (case f (h_plus (waveform data)) of
        Inl e \<Rightarrow> Inl e
      | Inr p \<Rightarrow>
          (case f (h_cross (waveform data)) of
             Inl e \<Rightarrow> Inl e
           | Inr c \<Rightarrow> Inr (data\<lparr>waveform := \<lparr>h_plus = p, h_cross = c\<rparr>\<rparr>)))"

section \<open>Lemmas on arrays\<close>

lemma slice_stop_le: "slice_stop n l \<le> l"
  by (auto simp: slice_stop_def)

lemma slice_stop_nonneg: "0 \<le> n \<Longrightarrow> slice_stop n l = nat (min n (int l))"
  by (simp add: slice_stop_def)

lemma T_conj_A2:
  "T_conj (A2 d r c rows) = A2 d c r (map (\<lambda>j. map (\<lambda>row. cnj (row ! j)) rows) [0..<c])"
  by (simp add: T_conj_def comp_def)

lemma T_conj_involution:
  assumes "valid_array a"
  shows "T_conj (T_conj a) = a"
proof (cases a)
  case (A0 d z)
  then show ?thesis by (simp add: T_conj_def)
next
  case (A1 d xs)
  then show ?thesis by (simp add: T_conj_def comp_def)
next
  case (A2 d r c rows)
  let ?twice = "map (\<lambda>i. map (\<lambda>col. cnj (col ! i))
                     (map (\<lambda>j. map (\<lambda>row. cnj (row ! j)) rows) [0..<c])) [0..<r]"
  from A2 assms have len: "length rows = r"
    and rows: "\<And>row. row \<in> set rows \<Longrightarrow> length row = c"
    by (auto simp: list_all_iff)
  have "?twice = rows"
  proof (rule nth_equalityI)
    show "length ?twice = length rows"
      using len by simp
  next
    fix i
    assume "i < length ?twice"
    then have i: "i < r" by simp
    then have li: "length (rows ! i) = c" using len rows by simp
    have "map (\<lambda>col. cnj (col ! i)) (map (\<lambda>j. map (\<lambda>row. cnj (row ! j)) rows) [0..<c])
          = rows ! i"
      by (rule nth_equalityI) (use i len li in simp_all)
    with i show "?twice ! i = rows ! i"
      by simp
  qed
  with A2 show ?thesis by (simp add: T_conj_A2)
qed

lemma slice_columns_T_conj:
  "slice_columns (T_conj (A2 d r c rows)) n =
     Inr (T_conj (A2 d (slice_stop n r) c (take (slice_stop n r) rows)))"
  by (simp add: T_conj_A2 take_map)

lemma valid_slice_rows:
  assumes "valid_array (A2 d r c rows)"
  shows "valid_array (A2 d (slice_stop n r) c (take (slice_stop n r) rows))"
proof -
  from assms have "length rows = r" and "list_all (\<lambda>row. length row = c) rows" by simp_all
  moreover have "set (take (slice_stop n r) rows) \<subseteq> set rows" by (rule set_take_subset)
  ultimately show ?thesis
    using slice_stop_le [of n r] by (auto simp: list_all_iff)
qed

lemma valid_astype: "valid_array a \<Longrightarrow> valid_array (astype_complex64 rnd a)"
  by (cases a) (auto simp: list_all_iff)

lemma valid_T_conj:
  "valid_array (A2 d r c rows) \<Longrightarrow> valid_array (T_conj (A2 d r c rows))"
  by (simp add: T_conj_A2 list_all_iff)

lemma T_conj_conjugate_transpose:
  "valid_array (A2 d r c rows) \<Longrightarrow>
   conjugate_transpose_of (T_conj (A2 d r c rows)) (A2 d r c rows)"
  by (simp add: conjugate_transpose_of_def T_conj_A2 list_all_iff)

lemma conjugate_transpose_T_conj:
  assumes "valid_array (A2 d r c rows)"
  shows "conjugate_transpose_of (A2 d r c rows) (T_conj (A2 d r c rows))"
proof -
  let ?rows = "map (\<lambda>j. map (\<lambda>row. cnj (row ! j)) rows) [0..<c]"
  have T: "T_conj (A2 d r c rows) = A2 d c r ?rows"
    by (rule T_conj_A2)
  from assms have "valid_array (A2 d c r ?rows)"
    using valid_T_conj [of d r c rows] by (simp add: T)
  then have "conjugate_transpose_of (T_conj (A2 d c r ?rows)) (A2 d c r ?rows)"
    by (rule T_conj_conjugate_transpose)
  moreover have "T_conj (A2 d c r ?rows) = A2 d r c rows"
    using T_conj_involution [OF assms] by (simp add: T)
  ultimately show ?thesis
    by (simp add: T)
qed

lemma conjugate_transpose_unique:
  assumes A: "conjugate_transpose_of A V" and B: "conjugate_transpose_of B V"
  shows "A = B"
proof -
  from A obtain d r c rows where V: "V = A2 d r c rows"
    by (cases V) (simp_all add: conjugate_transpose_of_def)
  from A V obtain rowsA where A2: "A = A2 d c r rowsA"
    by (cases A) (simp_all add: conjugate_transpose_of_def)
  from B V obtain rowsB where B2: "B = A2 d c r rowsB"
    by (cases B) (simp_all add: conjugate_transpose_of_def)
  from A V A2 have lenA: "length rowsA = c"
    and rowA: "\<And>j. j < c \<Longrightarrow> length (rowsA ! j) = r"
    and elA: "\<And>i j. j < c \<Longrightarrow> i < r \<Longrightarrow> rowsA ! j ! i = cnj (rows ! i ! j)"
    by (auto simp: conjugate_transpose_of_def list_all_iff)
  from B V B2 have lenB: "length rowsB = c"
    and rowB: "\<And>j. j < c \<Longrightarrow> length (rowsB ! j) = r"
    and elB: "\<And>i j. j < c \<Longrightarrow> i < r \<Longrightarrow> rowsB ! j ! i = cnj (rows ! i ! j)"
    by (auto simp: conjugate_transpose_of_def list_all_iff)
  have "rowsA = rowsB"
  proof (rule nth_equalityI)
    show "length rowsA = length rowsB" using lenA lenB by simp
  next
    fix j assume "j < length rowsA"
    then have j: "j < c" using lenA by simp
    show "rowsA ! j = rowsB ! j"
      by (rule nth_equalityI) (use j rowA rowB elA elB in simp_all)
  qed
  with A2 B2 show ?thesis by simp
qed

lemma matmul_None: "\<exists>m. matmul a None = Inl (ValueError m)"
  by (cases a) simp_all

section \<open>The basis\<close>

text \<open>The \<open>'scipy'\<close> branch, once \<open>scipy.linalg.svd\<close> has returned a matrix.\<close>

lemma scipy_result:
  assumes "scipy_svd lib training_data = Inr (A2 d k c rows)"
  shows "generate_basis_scipy lib self training_data n =
           (if n = 0 \<or> int c < n
            then (None, self\<lparr>basis_V := Some (T_conj (A2 d k c rows)),
                            basis_Vh := Some (A2 d k c rows), basis_n := Some (int k)\<rparr>)
            else (None, self\<lparr>basis_V := Some (T_conj (A2 d (slice_stop n k) c
                                                       (take (slice_stop n k) rows))),
                            basis_Vh := Some (A2 d (slice_stop n k) c (take (slice_stop n k) rows)),
                            basis_n := Some (int (slice_stop n k))\<rparr>))"
proof -
  have V: "T_conj (A2 d k c rows) = A2 d c k (map (\<lambda>j. map (\<lambda>row. cnj (row ! j)) rows) [0..<c])"
    by (rule T_conj_A2)
  have keep: "keep_all n (T_conj (A2 d k c rows)) = Inr (n = 0 \<or> int c < n)"
    by (simp add: keep_all_def V)
  show ?thesis
  proof (cases "n = 0 \<or> int c < n")
    case True
    then show ?thesis
      using assms keep by (simp add: generate_basis_scipy_def store_len_Vh_def)
  next
    case False
    then show ?thesis
      using assms keep slice_columns_T_conj [of d k c rows n]
      by (simp add: generate_basis_scipy_def store_len_Vh_def)
  qed
qed

text \<open>
  C4. On a basis object whose \<open>V\<close> and \<open>Vh\<close> are still \<open>None\<close> (no basis generated or
  loaded), \<open>fseries_to_basis_coefficients\<close> (project) and \<open>basis_coefficients_to_fseries\<close>
  (reconstruct) fail for every argument: the multiplication by \<open>None\<close> raises. This is the
  failure the spec calls \<open>BasisNotInitialized\<close>.
\<close>

theorem uninitialized_basis_fails:
  assumes "basis_V b = None" and "basis_Vh b = None"
  shows "(\<exists>m. fseries_to_basis_coefficients b fseries = Inl (ValueError m)) \<and>
         (\<exists>m. basis_coefficients_to_fseries b coefficients = Inl (ValueError m))"
  using assms
  by (simp add: fseries_to_basis_coefficients_def basis_coefficients_to_fseries_def matmul_None)

theorem uninitialized_basis_fails_witness:
  "basis_V SVDBasis_init = None \<and> basis_Vh SVDBasis_init = None \<and>
   (\<exists>m. fseries_to_basis_coefficients SVDBasis_init (A1 Complex128 [1, \<i>]) = Inl (ValueError m)) \<and>
   (\<exists>m. basis_coefficients_to_fseries SVDBasis_init (A1 Complex128 [1, \<i>]) = Inl (ValueError m))"
  using uninitialized_basis_fails [of SVDBasis_init "A1 Complex128 [1, \<i>]" "A1 Complex128 [1, \<i>]"]
  by (simp add: SVDBasis_init_def)

text \<open>
  C6. With the method \<open>'scipy'\<close>, for a requested number \<open>n \<ge> 0\<close> of basis elements and a
  decomposition whose \<open>Vh\<close> has \<open>k\<close> rows (the available rank, at most the number \<open>c\<close> of
  columns): the stored \<open>Vh\<close> is the first \<open>m\<close> rows of the full \<open>Vh\<close>, the stored \<open>V\<close> is its
  conjugate transpose, and the stored \<open>n\<close> is \<open>m\<close>, where \<open>m\<close> is \<open>k\<close> if \<open>n = 0\<close> and
  \<open>min n k\<close> otherwise; if \<open>n = 0\<close> or \<open>n > k\<close>, all rows are retained.
\<close>

theorem exact_method_truncates:
  assumes svd: "scipy_svd lib training_data = Inr (A2 d k c rows)"
    and valid: "valid_array (A2 d k c rows)"
    and thin: "k \<le> c"
    and n: "0 \<le> n"
    and m: "m = (if n = 0 then k else nat (min n (int k)))"
  shows "generate_basis lib self training_data n ''scipy'' =
           (None, self\<lparr>basis_V := Some (T_conj (A2 d m c (take m rows))),
                        basis_Vh := Some (A2 d m c (take m rows)),
                        basis_n := Some (int m)\<rparr>) \<and>
         (n = 0 \<or> int k < n \<longrightarrow> A2 d m c (take m rows) = A2 d k c rows)"
proof -
  from valid have len: "length rows = k" by simp
  show ?thesis
  proof (cases "n = 0 \<or> int c < n")
    case True
    with thin m have "m = k" by auto
    with len True show ?thesis
      using scipy_result [OF svd, of self n] by (simp add: generate_basis_def)
  next
    case False
    with n m have "slice_stop n k = m" by (simp add: slice_stop_nonneg)
    moreover have "int k < n \<longrightarrow> m = k" using m n by auto
    ultimately show ?thesis
      using False len scipy_result [OF svd, of self n] by (auto simp: generate_basis_def)
  qed
qed

theorem exact_method_truncates_witness:
  "scipy_svd example_numlib (A2 Float64 2 2 [[1, 0], [0, 1]]) =
     Inr (A2 Float64 2 2 [[1, 0], [0, 1]]) \<and>
   valid_array (A2 Float64 2 2 [[1, 0], [0, 1]]) \<and> (2::nat) \<le> 2 \<and> (0::int) \<le> 1 \<and>
   (1::nat) = (if (1::int) = 0 then 2 else nat (min 1 (int 2))) \<and>
   generate_basis example_numlib SVDBasis_init (A2 Float64 2 2 [[1, 0], [0, 1]]) 1 ''scipy'' =
     (None, \<lparr>basis_V = Some (A2 Float64 2 1 [[1], [0]]),
             basis_Vh = Some (A2 Float64 1 2 [[1, 0]]),
             basis_n = Some 1\<rparr>)"
proof -
  have svd: "scipy_svd example_numlib (A2 Float64 2 2 [[1, 0], [0, 1]]) =
               Inr (A2 Float64 2 2 [[1, 0], [0, 1]])"
    by (simp add: example_numlib_def)
  have valid: "valid_array (A2 Float64 2 2 [[1, 0], [0, 1]])" by simp
  have m: "(1::nat) = (if (1::int) = 0 then 2 else nat (min 1 (int 2)))" by simp
  have T: "T_conj (A2 Float64 1 2 [[1, 0]]) = A2 Float64 2 1 [[1], [0]]"
    by (simp add: T_conj_def upt_rec)
  from exact_method_truncates [OF svd valid _ _ m, of SVDBasis_init]
  show ?thesis using svd valid T by (simp add: SVDBasis_init_def)
qed

text \<open>
  C7. For a method other than \<open>'random'\<close> and \<open>'scipy'\<close>, \<open>generate_basis\<close> raises the
  \<open>ValueError\<close> that names the method (the spec's \<open>UnsupportedMethod\<close>) and leaves the
  object as it was.
\<close>

theorem unsupported_method_keeps_state:
  assumes "method \<noteq> ''random''" and "method \<noteq> ''scipy''"
  shows "generate_basis lib self training_data n method =
           (Some (ValueError (''Unsupported SVD method: '' @ method @ ''.'')), self)"
  using assms by (simp add: generate_basis_def)

theorem unsupported_method_keeps_state_witness:
  "''bogus'' \<noteq> ''random'' \<and> ''bogus'' \<noteq> ''scipy'' \<and>
   generate_basis example_numlib
     \<lparr>basis_V = Some (A2 Complex64 1 1 [[1]]), basis_Vh = Some (A2 Complex64 1 1 [[1]]),
      basis_n = Some 1\<rparr>
     (A2 Float64 1 1 [[1]]) 1 ''bogus'' =
     (Some (ValueError ''Unsupported SVD method: bogus.''),
      \<lparr>basis_V = Some (A2 Complex64 1 1 [[1]]), basis_Vh = Some (A2 Complex64 1 1 [[1]]),
       basis_n = Some 1\<rparr>)"
  using unsupported_method_keeps_state [of "''bogus''" example_numlib
     "\<lparr>basis_V = Some (A2 Complex64 1 1 [[1]]), basis_Vh = Some (A2 Complex64 1 1 [[1]]),
      basis_n = Some 1\<rparr>" "A2 Float64 1 1 [[1]]" 1]
  by simp

lemma from_file_result:
  assumes "files filename = Some (A2 d r c rows)"
  shows "from_file files self filename =
           (None, self\<lparr>basis_V := Some (A2 d r c rows),
                        basis_Vh := Some (T_conj (A2 d r c rows)),
                        basis_n := Some (int c)\<rparr>)"
  using assms by (simp add: from_file_def np_load_def shape_1_def)

lemma np_save_lookup: "np_save files filename a (npy_name filename) = Some a"
  by (simp add: np_save_def)

text \<open>
  C8, as stated, fails for a file name that does not end in \<open>.npy\<close>: \<open>np.save\<close> writes
  the file \<open>basis.npy\<close> when \<open>to_file\<close> is given the name \<open>basis\<close>, and \<open>from_file\<close> with
  the same name \<open>basis\<close> finds no file and raises, leaving the fresh object empty.
\<close>

theorem roundtrip_under_same_name_fails:
  "basis_V example_basis = Some (A2 Complex64 3 2 [[\<i>, 0], [0, 1], [0, 0]]) \<and>
   basis_Vh example_basis = Some (A2 Complex64 2 3 [[- \<i>, 0, 0], [0, 1, 0]]) \<and>
   conjugate_transpose_of (A2 Complex64 2 3 [[- \<i>, 0, 0], [0, 1, 0]])
     (A2 Complex64 3 2 [[\<i>, 0], [0, 1], [0, 0]]) \<and>
   to_file example_npy_files example_basis ''basis'' ''basis'' = None \<and>
   to_file example_npy_files example_basis ''basis'' ''basis.npy'' =
     Some (A2 Complex64 3 2 [[\<i>, 0], [0, 1], [0, 0]]) \<and>
   from_file (to_file example_npy_files example_basis ''basis'') SVDBasis_init ''basis'' =
     (Some (FileNotFoundError ''basis''), SVDBasis_init)"
  by (simp add: example_basis_def conjugate_transpose_of_def upt_rec to_file_def np_save_def
      npy_name_def has_npy_suffix_def example_npy_files_def from_file_def np_load_def)

text \<open>
  C8, amended. For a basis whose \<open>V\<close> is a matrix and whose \<open>Vh\<close> is the conjugate
  transpose of \<open>V\<close> (element by element, \<open>conjugate_transpose_of\<close>): \<open>to_file\<close> followed by
  \<open>from_file\<close> on a fresh object, from the file that \<open>np.save\<close> wrote, raises nothing
  and gives the same \<open>V\<close>, the same \<open>Vh\<close>, the number of columns of \<open>V\<close> as \<open>n\<close>, and the
  same results of \<open>fseries_to_basis_coefficients\<close> and \<open>basis_coefficients_to_fseries\<close> on
  every argument. The file that \<open>np.save\<close> wrote has the name given to \<open>to_file\<close> when
  that name ends in \<open>.npy\<close>.
\<close>

theorem save_load_roundtrip:
  assumes V: "basis_V b = Some (A2 d r c rows)"
    and valid: "valid_array (A2 d r c rows)"
    and Vh: "basis_Vh b = Some Vh"
    and ct: "conjugate_transpose_of Vh (A2 d r c rows)"
    and loaded: "loaded = from_file (to_file files b filename) SVDBasis_init (npy_name filename)"
  shows "fst loaded = None \<and>
         basis_V (snd loaded) = Some (A2 d r c rows) \<and>
         basis_Vh (snd loaded) = Some Vh \<and>
         basis_n (snd loaded) = Some (int c) \<and>
         fseries_to_basis_coefficients (snd loaded) x = fseries_to_basis_coefficients b x \<and>
         basis_coefficients_to_fseries (snd loaded) y = basis_coefficients_to_fseries b y \<and>
         (has_npy_suffix filename \<longrightarrow> npy_name filename = filename)"
proof -
  have "to_file files b filename (npy_name filename) = Some (A2 d r c rows)"
    using V by (simp add: to_file_def np_save_lookup)
  then have "from_file (to_file files b filename) SVDBasis_init (npy_name filename) =
           (None, SVDBasis_init\<lparr>basis_V := Some (A2 d r c rows),
                                 basis_Vh := Some (T_conj (A2 d r c rows)),
                                 basis_n := Some (int c)\<rparr>)"
    by (rule from_file_result)
  moreover have "T_conj (A2 d r c rows) = Vh"
    using T_conj_conjugate_transpose [OF valid] ct by (rule conjugate_transpose_unique)
  ultimately show ?thesis
    using V Vh loaded
    by (simp add: fseries_to_basis_coefficients_def basis_coefficients_to_fseries_def
        npy_name_def)
qed

theorem save_load_roundtrip_witness:
  "basis_V example_basis = Some (A2 Complex64 3 2 [[\<i>, 0], [0, 1], [0, 0]]) \<and>
   valid_array (A2 Complex64 3 2 [[\<i>, 0], [0, 1], [0, 0]]) \<and>
   basis_Vh example_basis = Some (A2 Complex64 2 3 [[- \<i>, 0, 0], [0, 1, 0]]) \<and>
   conjugate_transpose_of (A2 Complex64 2 3 [[- \<i>, 0, 0], [0, 1, 0]])
     (A2 Complex64 3 2 [[\<i>, 0], [0, 1], [0, 0]]) \<and>
   has_npy_suffix ''basis.npy'' \<and>
   from_file (to_file example_npy_files example_basis ''basis.npy'') SVDBasis_init ''basis.npy'' =
     (None, \<lparr>basis_V = Some (A2 Complex64 3 2 [[\<i>, 0], [0, 1], [0, 0]]),
             basis_Vh = Some (A2 Complex64 2 3 [[- \<i>, 0, 0], [0, 1, 0]]),
             basis_n = Some 2\<rparr>)"
proof -
  let ?V = "A2 Complex64 3 2 [[\<i>, 0], [0, 1], [0, 0]]"
  let ?Vh = "A2 Complex64 2 3 [[- \<i>, 0, 0], [0, 1, 0]]"
  let ?loaded = "from_file (to_file example_npy_files example_basis ''basis.npy'')
                   SVDBasis_init ''basis.npy''"
  have V: "basis_V example_basis = Some ?V" by (simp add: example_basis_def)
  have valid: "valid_array ?V" by simp
  have Vh: "basis_Vh example_basis = Some ?Vh" by (simp add: example_basis_def)
  have ct: "conjugate_transpose_of ?Vh ?V"
    by (simp add: conjugate_transpose_of_def upt_rec)
  have suffix: "has_npy_suffix ''basis.npy''" by (simp add: has_npy_suffix_def)
  then have name: "npy_name ''basis.npy'' = ''basis.npy''" by (simp add: npy_name_def)
  have "fst ?loaded = None \<and> basis_V (snd ?loaded) = Some ?V \<and>
        basis_Vh (snd ?loaded) = Some ?Vh \<and> basis_n (snd ?loaded) = Some 2"
    using save_load_roundtrip [OF V valid Vh ct, of "?loaded" example_npy_files "''basis.npy''"]
      name by simp
  then have "?loaded = (None, \<lparr>basis_V = Some ?V, basis_Vh = Some ?Vh, basis_n = Some 2\<rparr>)"
    by (cases ?loaded) auto
  with V valid Vh ct suffix show ?thesis by simp
qed

lemma invariant_from_Vh:
  assumes "basis_V b = Some (T_conj (A2 d k c rows))"
    and "basis_Vh b = Some (A2 d k c rows)"
    and "basis_n b = Some m"
    and "valid_array (A2 d k c rows)"
  shows "basis_invariant b = (m = int k)"
proof -
  have "conjugate_transpose_of (A2 d k c rows) (T_conj (A2 d k c rows))"
    using assms(4) by (rule conjugate_transpose_T_conj)
  moreover have "shape_1 (T_conj (A2 d k c rows)) = Inr k"
    by (simp add: T_conj_A2 shape_1_def)
  ultimately show ?thesis
    using assms(1-3) by (auto simp: basis_invariant_def)
qed

lemma invariant_from_V:
  assumes "basis_V b = Some (A2 d r c rows)"
    and "basis_Vh b = Some (T_conj (A2 d r c rows))"
    and "basis_n b = Some (int c)"
    and "valid_array (A2 d r c rows)"
  shows "basis_invariant b"
  using assms T_conj_conjugate_transpose [OF assms(4)]
  by (simp add: basis_invariant_def shape_1_def) (simp add: T_conj_A2)

text \<open>
  The \<open>'random'\<close> branch, once \<open>randomized_svd\<close> has returned a matrix of \<open>k\<close> rows: the
  stored \<open>n\<close> is the number asked for, and the invariant holds exactly when that is \<open>k\<close>.
\<close>

lemma random_result:
  assumes n': "resolve_n training_data n = Inr n'"
    and Vh: "randomized_svd lib training_data n' = Inr (A2 d k c rows)"
    and b: "b = snd (generate_basis lib self training_data n ''random'')"
  shows "fst (generate_basis lib self training_data n ''random'') = None"
    and "basis_Vh b = Some (A2 Complex64 k c (map (map (round_complex64 lib)) rows))"
    and "basis_V b = Some (T_conj (A2 Complex64 k c (map (map (round_complex64 lib)) rows)))"
    and "basis_n b = Some n'"
  using assms by (simp_all add: generate_basis_def generate_basis_random_def Let_def)

lemma random_invariant_iff:
  assumes n': "resolve_n training_data n = Inr n'"
    and Vh: "randomized_svd lib training_data n' = Inr (A2 d k c rows)"
    and valid: "valid_array (A2 d k c rows)"
  shows "basis_invariant (snd (generate_basis lib self training_data n ''random'')) = (n' = int k)"
proof -
  from valid have "valid_array (A2 Complex64 k c (map (map (round_complex64 lib)) rows))"
    using valid_astype [of "A2 d k c rows" "round_complex64 lib"] by simp
  with random_result(3,2,4) [OF n' Vh refl] show ?thesis
    by (rule invariant_from_Vh)
qed

lemma scipy_invariant:
  assumes ok: "scipy_svd_output_ok lib training_data"
    and gen: "generate_basis_scipy lib self training_data n = (None, b)"
  shows "basis_invariant b"
proof -
  from gen obtain Vh where Vh: "scipy_svd lib training_data = Inr Vh"
    by (auto simp: generate_basis_scipy_def split: sum.splits)
  with ok have mat: "is_matrix Vh" and valid: "valid_array Vh"
    by (simp_all add: scipy_svd_output_ok_def)
  from mat obtain d k c rows where A2: "Vh = A2 d k c rows"
    by (cases Vh) simp_all
  note res = scipy_result [OF Vh [unfolded A2], of self n]
  show ?thesis
  proof (cases "n = 0 \<or> int c < n")
    case True
    with res gen have b: "b = self\<lparr>basis_V := Some (T_conj (A2 d k c rows)),
                    basis_Vh := Some (A2 d k c rows), basis_n := Some (int k)\<rparr>"
      by simp
    from valid A2 have "valid_array (A2 d k c rows)" by simp
    then have "basis_invariant b = (int k = int k)"
      by (rule invariant_from_Vh [rotated 3]) (simp_all add: b)
    then show ?thesis by simp
  next
    case False
    let ?m = "slice_stop n k"
    from False res gen
    have b: "b = self\<lparr>basis_V := Some (T_conj (A2 d ?m c (take ?m rows))),
                    basis_Vh := Some (A2 d ?m c (take ?m rows)),
                    basis_n := Some (int ?m)\<rparr>"
      by simp
    from valid A2 have "valid_array (A2 d ?m c (take ?m rows))"
      using valid_slice_rows [of d k c rows n] by simp
    then have "basis_invariant b = (int ?m = int ?m)"
      by (rule invariant_from_Vh [rotated 3]) (simp_all add: b)
    then show ?thesis by simp
  qed
qed

lemma from_file_invariant:
  assumes V: "files filename = Some V"
    and valid: "valid_array V"
    and res: "from_file files self filename = (None, b)"
  shows "basis_invariant b"
proof -
  from V have load: "np_load files filename = Inr V"
    by (simp add: np_load_def)
  with res obtain c where c: "shape_1 V = Inr c"
    by (auto simp: from_file_def Let_def split: sum.splits)
  then obtain d r rows where A2: "V = A2 d r c rows"
    by (cases V) (simp_all add: shape_1_def)
  from res load c have "b = self\<lparr>basis_V := Some V, basis_Vh := Some (T_conj V),
                                  basis_n := Some (int c)\<rparr>"
    by (simp add: from_file_def Let_def)
  with A2 valid show ?thesis
    by (intro invariant_from_V [of b d r c rows]) simp_all
qed

text \<open>\<open>from_file\<close> on a one-dimensional array assigns \<open>V\<close> and \<open>Vh\<close> and then raises.\<close>

lemma from_file_vector_raises:
  assumes "files filename = Some (A1 d xs)"
  shows "from_file files self filename =
           (Some (IndexError ''tuple index out of range''),
            self\<lparr>basis_V := Some (A1 d xs), basis_Vh := Some (A1 d (map cnj xs))\<rparr>)"
  using assms by (simp add: from_file_def np_load_def shape_1_def T_conj_def)

text \<open>
  C9. The claim: after \<open>generate_basis\<close> with either method and after \<open>from_file\<close>, \<open>Vh\<close>
  is the conjugate transpose of \<open>V\<close> and \<open>n\<close> is the column count of \<open>V\<close> and the row count
  of \<open>Vh\<close>. The code: the \<open>'scipy'\<close> branch stores \<open>len(self.Vh)\<close>, the \<open>'random'\<close> branch
  stores the \<open>n\<close> it was asked for. On the \<open>2 \<times> 2\<close> identity with \<open>n = 5\<close>, a decomposition
  has two right-singular vectors: the \<open>'random'\<close> branch stores a \<open>2 \<times> 2\<close> matrix \<open>Vh\<close> and
  \<open>n = 5\<close>, and the invariant fails; the \<open>'scipy'\<close> branch stores \<open>n = 2\<close>, and it holds.
\<close>

theorem random_branch_stores_requested_n:
  "generate_basis example_numlib SVDBasis_init (A2 Float64 2 2 [[1, 0], [0, 1]]) 5 ''random'' =
     (None, \<lparr>basis_V = Some (A2 Complex64 2 2 [[1, 0], [0, 1]]),
             basis_Vh = Some (A2 Complex64 2 2 [[1, 0], [0, 1]]),
             basis_n = Some 5\<rparr>) \<and>
   shape_1 (A2 Complex64 2 2 [[1, 0], [0, 1]]) = Inr 2 \<and>
   len_array (A2 Complex64 2 2 [[1, 0], [0, 1]]) = Inr 2 \<and>
   \<not> basis_invariant \<lparr>basis_V = Some (A2 Complex64 2 2 [[1, 0], [0, 1]]),
                      basis_Vh = Some (A2 Complex64 2 2 [[1, 0], [0, 1]]),
                      basis_n = Some 5\<rparr> \<and>
   generate_basis example_numlib SVDBasis_init (A2 Float64 2 2 [[1, 0], [0, 1]]) 5 ''scipy'' =
     (None, \<lparr>basis_V = Some (A2 Float64 2 2 [[1, 0], [0, 1]]),
             basis_Vh = Some (A2 Float64 2 2 [[1, 0], [0, 1]]),
             basis_n = Some 2\<rparr>) \<and>
   basis_invariant \<lparr>basis_V = Some (A2 Float64 2 2 [[1, 0], [0, 1]]),
                    basis_Vh = Some (A2 Float64 2 2 [[1, 0], [0, 1]]),
                    basis_n = Some 2\<rparr>"
  by (simp add: generate_basis_def generate_basis_random_def generate_basis_scipy_def
      resolve_n_def keep_all_def store_len_Vh_def example_numlib_def slice_stop_def
      SVDBasis_init_def T_conj_def Let_def upt_rec basis_invariant_def
      conjugate_transpose_of_def shape_1_def)

text \<open>
  C5. The \<open>'random'\<close> branch casts \<open>Vh\<close> to \<open>complex64\<close>; the \<open>'scipy'\<close> branch stores
  what \<open>scipy.linalg.svd\<close> returned, uncast. On the \<open>1 \<times> 1\<close> training matrix \<open>[[1.0]]\<close>
  of dtype \<open>float64\<close> the two methods store bases of different dtypes.
\<close>

theorem scipy_branch_keeps_input_dtype:
  "map_option dtype_of
     (basis_V (snd (generate_basis example_numlib SVDBasis_init (A2 Float64 1 1 [[1]]) 1 ''scipy'')))
     = Some Float64 \<and>
   map_option dtype_of
     (basis_Vh (snd (generate_basis example_numlib SVDBasis_init (A2 Float64 1 1 [[1]]) 1 ''scipy'')))
     = Some Float64 \<and>
   map_option dtype_of
     (basis_V (snd (generate_basis example_numlib SVDBasis_init (A2 Float64 1 1 [[1]]) 1 ''random'')))
     = Some Complex64 \<and>
   map_option dtype_of
     (basis_Vh (snd (generate_basis example_numlib SVDBasis_init (A2 Float64 1 1 [[1]]) 1 ''random'')))
     = Some Complex64"
  by (simp add: generate_basis_def generate_basis_scipy_def generate_basis_random_def
      keep_all_def store_len_Vh_def resolve_n_def example_numlib_def slice_stop_def
      SVDBasis_init_def T_conj_def Let_def)

section \<open>The dataset\<close>

lemma load_settings_keeps:
  assumes "load_settings lib self fp = (None, self')"
  shows "Vh_attr self' = Vh_attr self \<and> parameter_samples self' = parameter_samples self \<and>
         waveform_polarizations self' = waveform_polarizations self \<and>
         transform self' = transform self"
  using assms
  by (auto simp: load_settings_def Let_def split: option.splits sum.splits)

lemma load_success:
  assumes "load lib self fp = (None, self')"
  shows "\<exists>ps grp hp hc table.
           h5_parameters fp = Some ps \<and> h5_waveform_polarizations fp = Some grp \<and>
           polarization_column grp ''h_plus'' = Inr hp \<and>
           polarization_column grp ''h_cross'' = Inr hc \<and>
           DataFrame_polarizations hp hc = Inr table \<and>
           parameter_samples self' = Some ps \<and>
           waveform_polarizations self' = Some table \<and>
           Vh_attr self' =
             (case h5_rb_matrix_V fp of None \<Rightarrow> Vh_attr self | Some V \<Rightarrow> Some (Some (T_conj V))) \<and>
           transform self' = transform self"
proof -
  from assms obtain ps where ps: "h5_parameters fp = Some ps"
    by (auto simp: load_def split: option.splits)
  with assms obtain grp where grp: "h5_waveform_polarizations fp = Some grp"
    by (auto simp: load_def Let_def split: option.splits)
  with assms ps obtain hp where hp: "polarization_column grp ''h_plus'' = Inr hp"
    by (auto simp: load_def Let_def split: sum.splits)
  with assms ps grp obtain hc where hc: "polarization_column grp ''h_cross'' = Inr hc"
    by (auto simp: load_def Let_def split: sum.splits)
  with assms ps grp hp obtain table where table: "DataFrame_polarizations hp hc = Inr table"
    by (auto simp: load_def Let_def split: sum.splits)
  let ?self2 = "load_rb_matrix (self\<lparr>parameter_samples := Some ps,
                                  waveform_polarizations := Some table\<rparr>) fp"
  from assms ps grp hp hc table have "load_settings lib ?self2 fp = (None, self')"
    by (simp add: load_def Let_def)
  from load_settings_keeps [OF this] ps grp hp hc table show ?thesis
    by (simp add: load_rb_matrix_def split: option.splits)
qed

lemma init_success:
  assumes "WaveformDataset_init lib files dataset_file tr = Inr ds"
    and "files dataset_file = Some fp"
  shows "load lib (init_attributes tr) fp = (None, ds)"
  using assms by (auto simp: WaveformDataset_init_def split: prod.splits option.splits)

lemma init_Vh_attr:
  assumes "WaveformDataset_init lib files dataset_file tr = Inr ds"
    and "files dataset_file = Some fp"
  shows "Vh_attr ds = Some (map_option T_conj (h5_rb_matrix_V fp))"
  using load_success [OF init_success [OF assms]]
  by (auto simp: init_attributes_def split: option.splits)

lemma apply_Vh_None: "\<exists>m. apply_Vh None data = Inl (ValueError m)"
  using matmul_None [of "h_plus (waveform data)"] by (auto simp: apply_Vh_def)

lemma getitem_without_basis_fails:
  assumes "Vh_attr ds = Some None"
  shows "isl (getitem ds idx)"
  using assms apply_Vh_None [of "projr (raw_sample ds idx)"]
  by (cases "raw_sample ds idx") (auto simp: getitem_def)

lemma load_three_sample_file:
  "load example_settings_lib (init_attributes None) three_sample_file =
     (None, \<lparr>transform = None, Vh_attr = Some None,
             parameter_samples = Some [[(''m1'', 30), (''m2'', 25)], [(''m1'', 35), (''m2'', 20)],
                                       [(''m1'', 40), (''m2'', 15)]],
             waveform_polarizations =
               Some [\<lparr>h_plus = A1 Complex128 [1, \<i>], h_cross = A1 Complex128 [1, \<i>]\<rparr>,
                     \<lparr>h_plus = A1 Complex128 [1, \<i>], h_cross = A1 Complex128 [1, \<i>]\<rparr>,
                     \<lparr>h_plus = A1 Complex128 [1, \<i>], h_cross = A1 Complex128 [1, \<i>]\<rparr>],
             data_settings = Some [(''domain_settings'', ())], domain = Some ()\<rparr>)"
  by (simp add: load_def load_settings_def load_rb_matrix_def three_sample_file_def
      example_settings_lib_def init_attributes_def polarization_column_def
      DataFrame_polarizations_def)

lemma getitem_fails_after_load_without_basis:
  assumes "WaveformDataset_init lib files dataset_file tr = Inr ds"
    and "files dataset_file = Some fp"
    and "h5_rb_matrix_V fp = None"
  shows "isl (getitem ds idx)"
proof -
  from init_Vh_attr [OF assms(1,2)] assms(3) have "Vh_attr ds = Some None"
    by simp
  then show ?thesis
    by (rule getitem_without_basis_fails)
qed

text \<open>
  C2. The claim: for a dataset loaded from a file without a basis matrix and with no
  transform, \<open>__getitem__\<close> returns the indexed row unmodified. The code: \<open>__init__\<close>
  assigns \<open>self._Vh = None\<close>, so \<open>'_Vh' in self.__dict__\<close> holds for every dataset, and
  \<open>__getitem__\<close> multiplies the polarizations by \<open>None\<close>. On the dataset of the spec's
  example, loading succeeds, the tables hold the second row, and \<open>__getitem__(1)\<close> raises.
\<close>

theorem getitem_fails_without_basis:
  "\<not> isl (WaveformDataset_init example_settings_lib
            example_h5_files ''three_samples.h5'' None) \<and>
   raw_sample
     (projr (WaveformDataset_init example_settings_lib
               example_h5_files ''three_samples.h5'' None)) 1 =
     Inr \<lparr>parameters = [(''m1'', 35), (''m2'', 20)],
          waveform = \<lparr>h_plus = A1 Complex128 [1, \<i>], h_cross = A1 Complex128 [1, \<i>]\<rparr>\<rparr> \<and>
   getitem
     (projr (WaveformDataset_init example_settings_lib
               example_h5_files ''three_samples.h5'' None)) 1 =
     Inl (ValueError ''matmul: Input operand 1 does not have enough dimensions'')"
  by (simp add: WaveformDataset_init_def example_h5_files_def load_three_sample_file getitem_def raw_sample_def
      iloc_def apply_Vh_def)

lemma load_mismatched_file:
  "load example_settings_lib (init_attributes None) mismatched_file =
     (None, \<lparr>transform = None, Vh_attr = Some None,
             parameter_samples = Some [[(''m1'', 30), (''m2'', 25)], [(''m1'', 35), (''m2'', 20)]],
             waveform_polarizations =
               Some [\<lparr>h_plus = A1 Complex128 [1, \<i>], h_cross = A1 Complex128 [1, \<i>]\<rparr>],
             data_settings = Some [(''domain_settings'', ())], domain = Some ()\<rparr>)"
  by (simp add: load_def load_settings_def load_rb_matrix_def mismatched_file_def
      example_settings_lib_def init_attributes_def polarization_column_def
      DataFrame_polarizations_def)

text \<open>
  C3, as stated, fails: \<open>load\<close> never compares the row counts of the two tables. A file
  with two rows of parameters and one row of waveforms, \<open>h_plus\<close> included, loads without
  an exception, and the tables keep their two and one rows.
\<close>

theorem load_accepts_mismatched_rows:
  "map_option length (h5_parameters mismatched_file) = Some 2 \<and>
   map_of (the (h5_waveform_polarizations mismatched_file)) ''h_plus'' =
     Some (A2 Complex128 1 2 [[1, \<i>]]) \<and>
   fst (load example_settings_lib (init_attributes None) mismatched_file) = None \<and>
   map_option length
     (parameter_samples (snd (load example_settings_lib (init_attributes None) mismatched_file)))
     = Some 2 \<and>
   map_option length
     (waveform_polarizations (snd (load example_settings_lib (init_attributes None) mismatched_file)))
     = Some 1"
  by (simp add: load_mismatched_file) (simp add: mismatched_file_def)

text \<open>
  C3, amended. On every dataset file that has the parameter table and the group of
  waveform polarizations, but no \<open>h_plus\<close> in the group, \<open>load\<close> raises \<open>KeyError\<close> for
  \<open>h_plus\<close> (the spec's \<open>SchemaError\<close>).
\<close>

theorem load_missing_h_plus:
  assumes "h5_parameters fp = Some ps"
    and "h5_waveform_polarizations fp = Some grp"
    and "map_of grp ''h_plus'' = None"
  shows "fst (load lib self fp) = Some (KeyError ''h_plus'')"
  using assms by (simp add: load_def polarization_column_def)

theorem load_missing_h_plus_witness:
  "h5_parameters (three_sample_file\<lparr>h5_waveform_polarizations :=
       Some [(''h_cross'', A2 Complex128 3 2 [[1, \<i>], [1, \<i>], [1, \<i>]])]\<rparr>) =
     Some [[(''m1'', 30), (''m2'', 25)], [(''m1'', 35), (''m2'', 20)], [(''m1'', 40), (''m2'', 15)]] \<and>
   h5_waveform_polarizations (three_sample_file\<lparr>h5_waveform_polarizations :=
       Some [(''h_cross'', A2 Complex128 3 2 [[1, \<i>], [1, \<i>], [1, \<i>]])]\<rparr>) =
     Some [(''h_cross'', A2 Complex128 3 2 [[1, \<i>], [1, \<i>], [1, \<i>]])] \<and>
   map_of [(''h_cross'', A2 Complex128 3 2 [[1, \<i>], [1, \<i>], [1, \<i>]])] ''h_plus'' = None \<and>
   fst (load example_settings_lib (init_attributes None)
          (three_sample_file\<lparr>h5_waveform_polarizations :=
             Some [(''h_cross'', A2 Complex128 3 2 [[1, \<i>], [1, \<i>], [1, \<i>]])]\<rparr>)) =
     Some (KeyError ''h_plus'')"
proof -
  let ?fp = "three_sample_file\<lparr>h5_waveform_polarizations :=
       Some [(''h_cross'', A2 Complex128 3 2 [[1, \<i>], [1, \<i>], [1, \<i>]])]\<rparr>"
  have p: "h5_parameters ?fp =
     Some [[(''m1'', 30), (''m2'', 25)], [(''m1'', 35), (''m2'', 20)], [(''m1'', 40), (''m2'', 15)]]"
    by (simp add: three_sample_file_def)
  have g: "h5_waveform_polarizations ?fp =
     Some [(''h_cross'', A2 Complex128 3 2 [[1, \<i>], [1, \<i>], [1, \<i>]])]"
    by simp
  have m: "map_of [(''h_cross'', A2 Complex128 3 2 [[1, \<i>], [1, \<i>], [1, \<i>]])] ''h_plus'' = None"
    by simp
  from load_missing_h_plus [OF p g m, of example_settings_lib "init_attributes None"] p g m
  show ?thesis by simp
qed

lemma load_rotation_basis_file:
  "load example_settings_lib (init_attributes None) rotation_basis_file =
     (None, \<lparr>transform = None,
             Vh_attr = Some (Some (A2 Complex128 2 2 [[0, - 1], [1, 0]])),
             parameter_samples = Some [[(''m1'', 30), (''m2'', 25)]],
             waveform_polarizations =
               Some [\<lparr>h_plus = A1 Complex128 [1, 0], h_cross = A1 Complex128 [0, 1]\<rparr>],
             data_settings = Some [(''domain_settings'', ())], domain = Some ()\<rparr>)"
  by (simp add: load_def load_settings_def load_rb_matrix_def rotation_basis_file_def
      example_settings_lib_def init_attributes_def polarization_column_def
      DataFrame_polarizations_def T_conj_def upt_rec)

lemma from_file_rotation:
  "from_file example_npy_files SVDBasis_init ''V.npy'' =
     (None, \<lparr>basis_V = Some (A2 Complex128 2 2 [[0, 1], [- 1, 0]]),
             basis_Vh = Some (A2 Complex128 2 2 [[0, - 1], [1, 0]]),
             basis_n = Some 2\<rparr>)"
  by (simp add: from_file_def np_load_def shape_1_def SVDBasis_init_def T_conj_def upt_rec
      example_npy_files_def)

text \<open>
  C1, as stated, fails: \<open>__getitem__\<close> multiplies the polarizations by \<open>_Vh\<close>, the
  conjugate transpose of the stored matrix, and \<open>fseries_to_basis_coefficients\<close> (project)
  multiplies by \<open>V\<close>. For the quarter-turn rotation \<open>V\<close> and the polarizations \<open>[1, 0]\<close>
  and \<open>[0, 1]\<close>, the accessor returns \<open>[0, -1]\<close> and \<open>[1, 0]\<close>, project \<open>[0, 1]\<close> and
  \<open>[-1, 0]\<close>.
\<close>

theorem getitem_is_not_project:
  "\<not> isl (WaveformDataset_init example_settings_lib
            example_h5_files ''rotation_basis.h5'' None) \<and>
   h5_rb_matrix_V rotation_basis_file = Some (A2 Complex128 2 2 [[0, 1], [- 1, 0]]) \<and>
   raw_sample
     (projr (WaveformDataset_init example_settings_lib
               example_h5_files ''rotation_basis.h5'' None)) 0 =
     Inr \<lparr>parameters = [(''m1'', 30), (''m2'', 25)],
          waveform = \<lparr>h_plus = A1 Complex128 [1, 0], h_cross = A1 Complex128 [0, 1]\<rparr>\<rparr> \<and>
   getitem
     (projr (WaveformDataset_init example_settings_lib
               example_h5_files ''rotation_basis.h5'' None)) 0 =
     Inr \<lparr>parameters = [(''m1'', 30), (''m2'', 25)],
          waveform = \<lparr>h_plus = A1 Complex128 [0, - 1], h_cross = A1 Complex128 [1, 0]\<rparr>\<rparr> \<and>
   fseries_to_basis_coefficients
     (snd (from_file example_npy_files SVDBasis_init ''V.npy''))
     (A1 Complex128 [1, 0]) = Inr (A1 Complex128 [0, 1]) \<and>
   fseries_to_basis_coefficients
     (snd (from_file example_npy_files SVDBasis_init ''V.npy''))
     (A1 Complex128 [0, 1]) = Inr (A1 Complex128 [- 1, 0]) \<and>
   A1 Complex128 [0, - 1] \<noteq> A1 Complex128 [0, 1]"
  by (simp add: WaveformDataset_init_def example_h5_files_def load_rotation_basis_file from_file_rotation getitem_def
      raw_sample_def iloc_def apply_Vh_def fseries_to_basis_coefficients_def vec_mat_def dot_def
      result_type_def upt_rec)
     (simp add: rotation_basis_file_def)

text \<open>
  C1, amended. For a dataset loaded from a file with the basis matrix \<open>V\<close>, and a basis
  loaded by \<open>from_file\<close> from the same \<open>V\<close>: the dataset's \<open>_Vh\<close> is the basis's \<open>Vh\<close>,
  the step of \<open>__getitem__\<close> on the two polarizations is \<open>basis_coefficients_to_fseries\<close>
  (reconstruct) on each of them, errors included, and \<open>__getitem__\<close> is the raw sample,
  that step, and then the transform.
\<close>

theorem getitem_applies_reconstruct:
  assumes init: "WaveformDataset_init lib files dataset_file tr = Inr ds"
    and fl: "files dataset_file = Some fp"
    and V: "h5_rb_matrix_V fp = Some V"
    and basis: "from_file npy SVDBasis_init filename = (None, b)"
    and npy: "npy filename = Some V"
  shows "Vh_attr ds = Some (basis_Vh b) \<and>
         apply_Vh (basis_Vh b) data = map_polarizations (basis_coefficients_to_fseries b) data \<and>
         getitem ds idx =
           (case raw_sample ds idx of
              Inl e \<Rightarrow> Inl e
            | Inr raw \<Rightarrow>
                (case map_polarizations (basis_coefficients_to_fseries b) raw of
                   Inl e \<Rightarrow> Inl e
                 | Inr data' \<Rightarrow> (case tr of None \<Rightarrow> Inr data' | Some t \<Rightarrow> t data')))"
proof -
  from basis npy have Vh: "basis_Vh b = Some (T_conj V)"
    by (auto simp: from_file_def np_load_def Let_def split: sum.splits)
  from init_Vh_attr [OF init fl] V Vh have attr: "Vh_attr ds = Some (basis_Vh b)"
    by simp
  have step: "apply_Vh (basis_Vh b) x = map_polarizations (basis_coefficients_to_fseries b) x" for x
    unfolding apply_Vh_def map_polarizations_def basis_coefficients_to_fseries_def ..
  from load_success [OF init_success [OF init fl]] have tr: "transform ds = tr"
    by (auto simp: init_attributes_def)
  show ?thesis
    using attr step tr by (simp add: getitem_def split: sum.splits)
qed

theorem getitem_applies_reconstruct_witness:
  "WaveformDataset_init example_settings_lib
     example_h5_files ''rotation_basis.h5'' None =
     Inr \<lparr>transform = None,
          Vh_attr = Some (Some (A2 Complex128 2 2 [[0, - 1], [1, 0]])),
          parameter_samples = Some [[(''m1'', 30), (''m2'', 25)]],
          waveform_polarizations =
            Some [\<lparr>h_plus = A1 Complex128 [1, 0], h_cross = A1 Complex128 [0, 1]\<rparr>],
          data_settings = Some [(''domain_settings'', ())], domain = Some ()\<rparr> \<and>
   h5_rb_matrix_V rotation_basis_file = Some (A2 Complex128 2 2 [[0, 1], [- 1, 0]]) \<and>
   from_file example_npy_files SVDBasis_init ''V.npy'' =
     (None, \<lparr>basis_V = Some (A2 Complex128 2 2 [[0, 1], [- 1, 0]]),
             basis_Vh = Some (A2 Complex128 2 2 [[0, - 1], [1, 0]]),
             basis_n = Some 2\<rparr>) \<and>
   map_polarizations
     (basis_coefficients_to_fseries
        \<lparr>basis_V = Some (A2 Complex128 2 2 [[0, 1], [- 1, 0]]),
         basis_Vh = Some (A2 Complex128 2 2 [[0, - 1], [1, 0]]),
         basis_n = Some 2\<rparr>)
     \<lparr>parameters = [(''m1'', 30), (''m2'', 25)],
      waveform = \<lparr>h_plus = A1 Complex128 [1, 0], h_cross = A1 Complex128 [0, 1]\<rparr>\<rparr> =
     Inr \<lparr>parameters = [(''m1'', 30), (''m2'', 25)],
          waveform = \<lparr>h_plus = A1 Complex128 [0, - 1], h_cross = A1 Complex128 [1, 0]\<rparr>\<rparr>"
proof -
  let ?ds = "\<lparr>transform = None,
          Vh_attr = Some (Some (A2 Complex128 2 2 [[0, - 1], [1, 0]])),
          parameter_samples = Some [[(''m1'', 30), (''m2'', 25)]],
          waveform_polarizations =
            Some [\<lparr>h_plus = A1 Complex128 [1, 0], h_cross = A1 Complex128 [0, 1]\<rparr>],
          data_settings = Some [(''domain_settings'', ())], domain = Some ()\<rparr>
          :: (unit, unit) WaveformDataset"
  let ?raw = "\<lparr>parameters = [(''m1'', 30), (''m2'', 25)],
      waveform = \<lparr>h_plus = A1 Complex128 [1, 0], h_cross = A1 Complex128 [0, 1]\<rparr>\<rparr>"
  have init: "WaveformDataset_init example_settings_lib
     example_h5_files ''rotation_basis.h5'' None = Inr ?ds"
    by (simp add: WaveformDataset_init_def example_h5_files_def load_rotation_basis_file)
  have fl: "example_h5_files ''rotation_basis.h5''
               = Some rotation_basis_file"
    by (simp add: example_h5_files_def)
  have V: "h5_rb_matrix_V rotation_basis_file = Some (A2 Complex128 2 2 [[0, 1], [- 1, 0]])"
    by (simp add: rotation_basis_file_def)
  have npy: "example_npy_files ''V.npy''
               = Some (A2 Complex128 2 2 [[0, 1], [- 1, 0]])"
    by (simp add: example_npy_files_def)
  have app: "apply_Vh (Some (A2 Complex128 2 2 [[0, - 1], [1, 0]])) ?raw =
     Inr \<lparr>parameters = [(''m1'', 30), (''m2'', 25)],
          waveform = \<lparr>h_plus = A1 Complex128 [0, - 1], h_cross = A1 Complex128 [1, 0]\<rparr>\<rparr>"
    by (simp add: apply_Vh_def vec_mat_def dot_def result_type_def upt_rec)
  from getitem_applies_reconstruct [OF init fl V from_file_rotation npy, of ?raw 0] init V
    from_file_rotation app
  show ?thesis by simp
qed





end
